theory Spec2Isabelle
  imports Complex_Main "HOL-Library.Monad_Syntax"
begin

section \<open>The TCP BBR agent of tcp-bbr.cc\<close>

text \<open>
  The source is one C++ class, \<^verbatim>\<open>TcpBbrAgent\<close>, with two entry points that touch its own
  fields: \<^verbatim>\<open>sendmsg\<close> and \<^verbatim>\<open>recv\<close>. The embedding follows the source line by line.

  \<^item> A \<^verbatim>\<open>double\<close> is an IEEE binary64 number, held as the \<^typ>\<open>real\<close> it denotes. Every
    \<^verbatim>\<open>-\<close>, \<^verbatim>\<open>*\<close> and \<^verbatim>\<open>/\<close> on doubles is the exact result rounded to the nearest
    double, ties to even (\<open>fl\<close>), evaluated in double precision as on x86-64. An
    infinity or a NaN is not a real: where the source would put one into
    \<^verbatim>\<open>max_bandwidth_\<close>, \<^verbatim>\<open>min_rtt_\<close> or the window product, the same call of \<^verbatim>\<open>recv\<close> goes on
    to convert an infinity or a NaN to \<^verbatim>\<open>int\<close>, which is undefined, and the model
    returns \<open>None\<close>. The sign of a zero is not modelled; the one place where it could
    show is a round-trip time of \<open>-0.0\<close>, which needs a clock of \<open>-0.0\<close>.
  \<^item> An \<^verbatim>\<open>int\<close> is a 32-bit signed integer. Signed overflow and a conversion from
    \<^verbatim>\<open>double\<close> to \<^verbatim>\<open>int\<close> whose truncated value does not fit are undefined in C++; a
    function that can meet one returns an \<open>option\<close>, and \<open>None\<close> stands for
    "the behaviour of this call is undefined". \<open>None\<close> is never an error the agent
    reports: the source's functions return \<^verbatim>\<open>void\<close>.
  \<^item> \<^verbatim>\<open>Scheduler::instance().clock()\<close> is the simulator's clock. It does not advance
    while one event is handled, so each entry point takes its value as the argument
    \<open>clock\<close>.
  \<^item> The function-local \<^verbatim>\<open>static int cycle\<close> of \<^verbatim>\<open>cycle_gain\<close> is one variable of the
    whole process. It is passed beside the agent: a process state is the pair
    \<open>(cycle, agent)\<close>.
  \<^item> \<^verbatim>\<open>TcpAgent::sendmsg\<close>, \<^verbatim>\<open>TcpAgent::recv\<close> and \<^verbatim>\<open>TcpAgent::timeout\<close> belong to the base
    class, which is outside the source file. The base class cannot name the fields
    \<^verbatim>\<open>TcpBbrAgent\<close> declares; \<^verbatim>\<open>size_\<close>, which it owns, is taken to be left as it is.
  \<^item> Isabelle does not accept a constant whose name ends in an underscore, so the field
    \<^verbatim>\<open>cwnd_\<close> is \<open>cwnd\<close>, and so on; \<^verbatim>\<open>size_\<close> is \<open>size_agent\<close>.
\<close>

subsection \<open>Data\<close>

datatype BbrState = STARTUP | DRAIN | PROBE_BW | PROBE_RTT

text \<open>The fields of \<^verbatim>\<open>TcpBbrAgent\<close>, and \<^verbatim>\<open>size_\<close> inherited from the base agent.\<close>

record TcpBbrAgent =
  size_agent :: int
  pacing_gain :: real
  cwnd_gain :: real
  max_bandwidth :: real
  min_rtt :: real
  pacing_rate :: real
  cwnd :: int
  state :: BbrState
  t_last_rtt_probe :: real
  t_state_start :: real

text \<open>
  What \<^verbatim>\<open>recv\<close> reads of a packet: \<^verbatim>\<open>hdr_tcp::access(pkt)->ts()\<close> and
  \<^verbatim>\<open>hdr_cmn::access(pkt)->size()\<close>.
\<close>

record Packet =
  hdr_tcp_ts :: real
  hdr_cmn_size :: int

text \<open>
  The constructor's initialiser list. \<^verbatim>\<open>size_\<close> is set by the base class;
  it is the argument \<open>sz\<close>.
\<close>

definition new_TcpBbrAgent :: "int \<Rightarrow> TcpBbrAgent" where
  "new_TcpBbrAgent sz =
     \<lparr>size_agent = sz, pacing_gain = 1.0, cwnd_gain = 2.0, max_bandwidth = 0.0,
      min_rtt = 1000000000, pacing_rate = 0.0, cwnd = 0, state = STARTUP,
      t_last_rtt_probe = 0.0, t_state_start = 0.0\<rparr>"

subsection \<open>binary64 arithmetic\<close>

text \<open>The number of binary digits of \<open>n\<close>.\<close>

fun bits :: "nat \<Rightarrow> nat" where
  "bits n = (if n = 0 then 0 else Suc (bits (n div 2)))"

declare bits.simps [simp del]

text \<open>For \<open>x > 0\<close>, the exponent \<open>e\<close> with \<open>2^e \<le> x < 2^(e+1)\<close> (lemma \<open>ilog2_bounds\<close>).\<close>

definition ilog2 :: "real \<Rightarrow> int" where
  "ilog2 x = (if 1 \<le> x then int (bits (nat \<lfloor>x\<rfloor>)) - 1
              else - int (bits (nat (\<lceil>1 / x\<rceil> - 1))))"

definition pow2 :: "int \<Rightarrow> real" where
  "pow2 k = (if 0 \<le> k then 2 ^ nat k else 1 / 2 ^ nat (- k))"

text \<open>The nearest integer; of two equally near, the even one.\<close>

definition round_even :: "real \<Rightarrow> int" where
  "round_even x =
     (let f = \<lfloor>x\<rfloor>; d = x - of_int f
      in if d < 1 / 2 then f else if 1 / 2 < d then f + 1 else if even f then f else f + 1)"

text \<open>
  Rounding to binary64: 53 significant bits, so the unit in the last place of a number
  with exponent \<open>e\<close> is \<open>2^(e - 52)\<close>; below the least normal exponent \<open>-1022\<close> the unit
  stays \<open>2^(-1074)\<close> (subnormal numbers, and underflow to zero). The exponent is not
  bounded above here: a result beyond \<open>double_max\<close> stands for the infinity of its sign.
\<close>

definition fl :: "real \<Rightarrow> real" where
  "fl x = (if x = 0 then 0
           else (let e = max (ilog2 \<bar>x\<bar>) (- 1022); u = pow2 (e - 52)
                 in of_int (round_even (x / u)) * u))"

definition double_max :: real where
  "double_max = (2 ^ 53 - 1) * 2 ^ 971"

definition is_finite :: "real \<Rightarrow> bool" where
  "is_finite x = (\<bar>x\<bar> \<le> double_max)"

text \<open>
  A product that goes on into a conversion to \<^verbatim>\<open>int\<close>: an infinite product makes that
  conversion, and so the call, undefined.
\<close>

definition dmul :: "real \<Rightarrow> real \<Rightarrow> real option" where
  "dmul x y = (let p = fl (x * y) in if is_finite p then Some p else None)"

text \<open>
  A quotient by \<open>y \<noteq> 0\<close>, where \<open>y\<close> may stand for an infinity: a finite number divided
  by an infinity is zero.
\<close>

definition ddiv :: "real \<Rightarrow> real \<Rightarrow> real" where
  "ddiv x y = (if is_finite y then fl (x / y) else 0)"

subsection \<open>C++ integers\<close>

definition in_int :: "int \<Rightarrow> bool" where
  "in_int i = (- 2147483648 \<le> i \<and> i \<le> 2147483647)"

text \<open>
  Conversion of a \<^verbatim>\<open>double\<close> to \<^verbatim>\<open>int\<close> drops the fraction (towards zero); it is undefined
  when the result does not fit.
\<close>

definition trunc :: "real \<Rightarrow> int" where
  "trunc x = (if 0 \<le> x then \<lfloor>x\<rfloor> else \<lceil>x\<rceil>)"

definition double_to_int :: "real \<Rightarrow> int option" where
  "double_to_int x = (if in_int (trunc x) then Some (trunc x) else None)"

definition int_mul :: "int \<Rightarrow> int \<Rightarrow> int option" where
  "int_mul a b = (if in_int (a * b) then Some (a * b) else None)"

text \<open>The operator \<^verbatim>\<open>%\<close>: the remainder has the sign of the dividend.\<close>

definition int_rem :: "int \<Rightarrow> int \<Rightarrow> int" where
  "int_rem a b = sgn a * (\<bar>a\<bar> mod \<bar>b\<bar>)"

subsection \<open>The member functions\<close>

text \<open>
  \<^verbatim>\<open>sendmsg\<close>: the one place where \<^verbatim>\<open>pacing_rate_\<close> is assigned. \<^verbatim>\<open>nbytes\<close> and
  \<^verbatim>\<open>flags\<close> only go on to the base class. Nothing in the source reads
  \<^verbatim>\<open>pacing_rate_\<close>, so a product that overflows is kept as \<open>fl\<close> gives it: a value
  beyond \<open>double_max\<close>, standing for the infinity the source stores.
\<close>

definition sendmsg :: "TcpBbrAgent \<Rightarrow> TcpBbrAgent" where
  "sendmsg a = a\<lparr>pacing_rate := fl (pacing_gain a * max_bandwidth a)\<rparr>"

text \<open>
  \<^verbatim>\<open>update_max_bandwidth\<close> divides without a check. \<open>rtt\<close> is the double \<^verbatim>\<open>recv\<close> computed;
  it may be zero, and it may stand for an infinity (the subtraction overflowed).
  \<^item> \<open>rtt = 0\<close> and \<open>delivered > 0\<close>: the quotient is \<open>+infinity\<close>, which is stored in
    \<^verbatim>\<open>max_bandwidth_\<close>; the window computed later in the same \<^verbatim>\<open>recv\<close> is then the
    conversion of a NaN or an infinity to \<^verbatim>\<open>int\<close>. The model returns \<open>None\<close> at once.
  \<^item> \<open>rtt = 0\<close> and \<open>delivered \<le> 0\<close>: the quotient is NaN or \<open>-infinity\<close>; the comparison
    \<^verbatim>\<open>bw > max_bandwidth_\<close> is false and nothing is stored.
  \<^item> Otherwise the quotient is \<open>ddiv delivered rtt\<close>. If it overflows and is stored, it is
    \<open>+infinity\<close> again and the model returns \<open>None\<close>; a quotient that stands for
    \<open>-infinity\<close> is not above \<^verbatim>\<open>max_bandwidth_\<close> and is not stored.
\<close>

definition update_max_bandwidth :: "real \<Rightarrow> real \<Rightarrow> TcpBbrAgent \<Rightarrow> TcpBbrAgent option" where
  "update_max_bandwidth delivered rtt a =
     (if rtt = 0 then (if 0 < delivered then None else Some a)
      else (let bw = ddiv delivered rtt
            in if bw > max_bandwidth a
               then (if is_finite bw then Some (a\<lparr>max_bandwidth := bw\<rparr>) else None)
               else Some a))"

text \<open>
  \<^verbatim>\<open>update_min_rtt\<close>. An \<open>rtt\<close> that stands for an infinity and is below \<^verbatim>\<open>min_rtt_\<close> is
  \<open>-infinity\<close>; once stored, the window product of the same \<^verbatim>\<open>recv\<close> is an infinity or a
  NaN, and the model returns \<open>None\<close>.
\<close>

definition update_min_rtt :: "real \<Rightarrow> TcpBbrAgent \<Rightarrow> TcpBbrAgent option" where
  "update_min_rtt rtt a =
     (if rtt < min_rtt a
      then (if is_finite rtt then Some (a\<lparr>min_rtt := rtt\<rparr>) else None)
      else Some a)"

text \<open>\<^verbatim>\<open>&&\<close> evaluates \<^verbatim>\<open>10 * size_\<close> only when the bandwidth is positive.\<close>

definition bandwidth_growth_slows :: "TcpBbrAgent \<Rightarrow> bool option" where
  "bandwidth_growth_slows a =
     (if max_bandwidth a > 0
      then do { t \<leftarrow> int_mul 10 (size_agent a); Some (cwnd a > t) }
      else Some False)"

definition target_inflight :: "TcpBbrAgent \<Rightarrow> int option" where
  "target_inflight a =
     do { bdp \<leftarrow> dmul (max_bandwidth a) (min_rtt a); double_to_int bdp }"

text \<open>
  \<^verbatim>\<open>cycle_gain\<close> takes the value of the static \<^verbatim>\<open>cycle\<close> and returns the gain with the new
  value. The static starts at 0 and stays within 0..7 (lemma \<open>cycle_gain_range\<close>), so
  \<^verbatim>\<open>cycle + 1\<close> does not overflow.
\<close>

definition cycle_gain :: "int \<Rightarrow> real \<times> int" where
  "cycle_gain cycle =
     (let cycle' = int_rem (cycle + 1) 8
      in if cycle' = 0 then (1.25, cycle')
         else if cycle' = 1 then (0.75, cycle')
         else (1.0, cycle'))"

text \<open>
  The two timers. A difference that overflows stands for an infinity and compares as
  one. The literal \<^verbatim>\<open>0.2\<close> is the double nearest to \<open>1/5\<close>; \<^verbatim>\<open>10.0\<close> is exact.
\<close>

definition time_to_probe_rtt :: "real \<Rightarrow> TcpBbrAgent \<Rightarrow> bool" where
  "time_to_probe_rtt clock a = (fl (clock - t_last_rtt_probe a) > 10.0)"

definition rtt_stable_for_long_enough :: "real \<Rightarrow> TcpBbrAgent \<Rightarrow> bool" where
  "rtt_stable_for_long_enough clock a = (fl (clock - t_state_start a) > fl 0.2)"

text \<open>The \<^verbatim>\<open>switch (state_)\<close> of \<^verbatim>\<open>recv\<close>, one case per label.\<close>

definition state_machine :: "real \<Rightarrow> int \<times> TcpBbrAgent \<Rightarrow> (int \<times> TcpBbrAgent) option" where
  "state_machine clock w =
     (case w of (cycle, a) \<Rightarrow>
        (case state a of
           STARTUP \<Rightarrow>
             do { slows \<leftarrow> bandwidth_growth_slows a;
                  Some (cycle, if slows then a\<lparr>state := DRAIN, t_state_start := clock\<rparr> else a) }
         | DRAIN \<Rightarrow>
             do { target \<leftarrow> target_inflight a;
                  Some (cycle, if cwnd a \<le> target
                               then a\<lparr>state := PROBE_BW, t_state_start := clock\<rparr> else a) }
         | PROBE_BW \<Rightarrow>
             (case cycle_gain cycle of (gain, cycle') \<Rightarrow>
                (let a1 = a\<lparr>pacing_gain := gain\<rparr>
                 in Some (cycle', if time_to_probe_rtt clock a1
                                  then a1\<lparr>state := PROBE_RTT, t_last_rtt_probe := clock,
                                          t_state_start := clock\<rparr>
                                  else a1)))
         | PROBE_RTT \<Rightarrow>
             do { floor_cwnd \<leftarrow> int_mul 4 (size_agent a);
                  let a1 = a\<lparr>cwnd := floor_cwnd\<rparr>;
                  Some (cycle, if rtt_stable_for_long_enough clock a1
                               then a1\<lparr>state := PROBE_BW, t_state_start := clock\<rparr> else a1) }))"

text \<open>
  \<^verbatim>\<open>recv\<close>: the estimates, the stamp of \<^verbatim>\<open>t_state_start_\<close> outside \<^verbatim>\<open>PROBE_RTT\<close>, the
  switch, then the window, assigned whatever the state is. \<^verbatim>\<open>pacing_rate_\<close> is not
  assigned here.
\<close>

definition recv :: "real \<Rightarrow> Packet \<Rightarrow> int \<times> TcpBbrAgent \<Rightarrow> (int \<times> TcpBbrAgent) option" where
  "recv clock pkt w =
     (case w of (cycle, a) \<Rightarrow>
        (let rtt = fl (clock - hdr_tcp_ts pkt);
             delivered = hdr_cmn_size pkt
         in do {
           a1 \<leftarrow> update_max_bandwidth (real_of_int delivered) rtt a;
           a2 \<leftarrow> update_min_rtt rtt a1;
           let a3 = (if state a2 \<noteq> PROBE_RTT then a2\<lparr>t_state_start := clock\<rparr> else a2);
           (cycle', a4) \<leftarrow> state_machine clock (cycle, a3);
           bdp \<leftarrow> dmul (max_bandwidth a4) (min_rtt a4);
           window \<leftarrow> dmul (cwnd_gain a4) bdp;
           c \<leftarrow> double_to_int window;
           let a5 = a4\<lparr>cwnd := c\<rparr>;
           Some (cycle', if cwnd a5 < size_agent a5 then a5\<lparr>cwnd := size_agent a5\<rparr> else a5)
         }))"

text \<open>\<^verbatim>\<open>timeout\<close> only calls the base class.\<close>

definition timeout :: "TcpBbrAgent \<Rightarrow> TcpBbrAgent" where
  "timeout a = a"

subsection \<open>Runs\<close>

text \<open>
  The calls the surrounding simulator makes on one agent, in order. A delivery sample
  \<open>(delivered_bytes, sample_rtt)\<close> at time \<open>now\<close> is the event \<open>Recv now pkt\<close> with
  \<open>hdr_cmn_size pkt = delivered_bytes\<close> and \<open>now - hdr_tcp_ts pkt = sample_rtt\<close>.
\<close>

datatype Event = Recv real Packet | Sendmsg | Timeout

fun step :: "Event \<Rightarrow> int \<times> TcpBbrAgent \<Rightarrow> (int \<times> TcpBbrAgent) option" where
  "step (Recv clock pkt) w = recv clock pkt w"
| "step Sendmsg (cycle, a) = Some (cycle, sendmsg a)"
| "step Timeout (cycle, a) = Some (cycle, timeout a)"

fun run :: "Event list \<Rightarrow> int \<times> TcpBbrAgent \<Rightarrow> (int \<times> TcpBbrAgent) option" where
  "run [] w = Some w"
| "run (e # es) w = do { w' \<leftarrow> step e w; run es w' }"

text \<open>
  The packet whose acknowledgement at \<open>clock\<close> carries the sample \<open>(delivered, rtt)\<close>. Its
  time stamp is the real number \<open>clock - rtt\<close>, so the round-trip time \<open>recv\<close> computes is
  \<open>fl rtt\<close>: \<open>rtt\<close> itself when it is a double.
\<close>

definition sample :: "real \<Rightarrow> int \<Rightarrow> real \<Rightarrow> Event" where
  "sample clock delivered rtt =
     Recv clock \<lparr>hdr_tcp_ts = clock - rtt, hdr_cmn_size = delivered\<rparr>"

text \<open>\<open>n\<close> consecutive calls of \<^verbatim>\<open>cycle_gain\<close>: the gains returned, and the static afterwards.\<close>

fun cycle_gain_calls :: "nat \<Rightarrow> int \<Rightarrow> real list \<times> int" where
  "cycle_gain_calls 0 cycle = ([], cycle)"
| "cycle_gain_calls (Suc n) cycle =
     (case cycle_gain cycle of (g, cycle') \<Rightarrow>
        (case cycle_gain_calls n cycle' of (gs, cycle'') \<Rightarrow> (g # gs, cycle'')))"

text \<open>
  Two agents of one process call \<^verbatim>\<open>cycle_gain\<close> in some order; both calls go through the
  one static. \<open>gains_seen who calls cycle\<close> are the gains returned to \<open>who\<close>.
\<close>

datatype Instance = Agent_A | Agent_B

fun gains_seen :: "Instance \<Rightarrow> Instance list \<Rightarrow> int \<Rightarrow> real list" where
  "gains_seen who [] cycle = []"
| "gains_seen who (c # cs) cycle =
     (case cycle_gain cycle of (g, cycle') \<Rightarrow>
        (if c = who then [g] else []) @ gains_seen who cs cycle')"

section \<open>Properties\<close>

subsection \<open>Rounding\<close>

lemma bits_bounds: "0 < n \<Longrightarrow> 2 ^ (bits n - 1) \<le> n \<and> n < 2 ^ bits n"
proof (induction n rule: bits.induct)
  case (1 n)
  show ?case
  proof (cases "n div 2 = 0")
    case True
    with "1.prems" have "n = 1" by (simp add: div_eq_0_iff) 
    then show ?thesis by (simp add: bits.simps)
  next
    case False
    then have pos: "0 < n div 2" by simp
    from "1.prems" have n0: "n \<noteq> 0" by simp
    from "1.IH" [OF n0 pos] have
      lo: "2 ^ (bits (n div 2) - 1) \<le> n div 2" and hi: "n div 2 < 2 ^ bits (n div 2)"
      by simp_all
    have b: "bits n = Suc (bits (n div 2))"
      using n0 by (subst bits.simps) simp
    have k: "0 < bits (n div 2)"
      using pos by (subst bits.simps) simp
    then have "(2::nat) ^ bits (n div 2) = 2 * 2 ^ (bits (n div 2) - 1)"
      by (cases "bits (n div 2)") simp_all
    with lo have "2 ^ bits (n div 2) \<le> 2 * (n div 2)" by simp
    also have "\<dots> \<le> n" by simp
    finally have l: "2 ^ (bits n - 1) \<le> n" by (simp add: b)
    from hi have "n div 2 + 1 \<le> 2 ^ bits (n div 2)" by simp
    then have "2 * (n div 2) + 2 \<le> 2 * 2 ^ bits (n div 2)" by simp
    moreover have "n < 2 * (n div 2) + 2" by presburger
    ultimately have "n < 2 ^ bits n" by (simp add: b)
    with l show ?thesis by simp
  qed
qed

lemma round_even_error: "\<bar>real_of_int (round_even y) - y\<bar> \<le> 1 / 2"
  by (simp add: round_even_def Let_def)

lemma ilog2_bounds:
  assumes "0 < x"
  shows "pow2 (ilog2 x) \<le> x \<and> x < pow2 (ilog2 x + 1)"
proof (cases "1 \<le> x")
  case True
  define n where "n = nat \<lfloor>x\<rfloor>"
  have n: "0 < n" "real n \<le> x" "x < real n + 1"
    using True by (simp_all add: n_def)
  from bits_bounds [OF n(1)] have lo: "2 ^ (bits n - 1) \<le> n" and hi: "n < 2 ^ bits n"
    by simp_all
  have k: "0 < bits n"
    using n(1) by (subst bits.simps) simp
  have e: "ilog2 x = int (bits n) - 1"
    using True by (simp add: ilog2_def n_def)
  have p1: "pow2 (ilog2 x) = 2 ^ (bits n - 1)"
    using k by (simp add: e pow2_def nat_diff_distrib')
  have p2: "pow2 (ilog2 x + 1) = 2 ^ bits n"
    by (simp add: e pow2_def)
  have "real (2 ^ (bits n - 1)) \<le> real n"
    using lo by (rule of_nat_mono)
  then have "(2::real) ^ (bits n - 1) \<le> real n"
    by (simp only: of_nat_power of_nat_numeral)
  with n(2) have a: "pow2 (ilog2 x) \<le> x"
    unfolding p1 by linarith
  have "real (Suc n) \<le> real (2 ^ bits n)"
    using hi by (intro of_nat_mono) simp
  then have "real n + 1 \<le> (2::real) ^ bits n"
    by (simp only: of_nat_power of_nat_numeral of_nat_Suc add.commute)
  with n(3) have b: "x < pow2 (ilog2 x + 1)"
    unfolding p2 by linarith
  from a b show ?thesis ..
next
  case False
  define y where "y = 1 / x"
  define n where "n = nat (\<lceil>y\<rceil> - 1)"
  have y: "1 < y" using False assms by (simp add: y_def)
  then have c: "2 \<le> \<lceil>y\<rceil>" by linarith
  have n: "0 < n" "real n < y" "y \<le> real n + 1"
    using c by (simp_all add: n_def) linarith+
  from bits_bounds [OF n(1)] have lo: "2 ^ (bits n - 1) \<le> n" and hi: "n < 2 ^ bits n"
    by simp_all
  have k: "0 < bits n"
    using n(1) by (subst bits.simps) simp
  have e: "ilog2 x = - int (bits n)"
    using False by (simp add: ilog2_def n_def y_def)
  have p1: "pow2 (ilog2 x) = 1 / 2 ^ bits n"
    using k by (simp add: e pow2_def)
  have p2: "pow2 (ilog2 x + 1) = 1 / 2 ^ (bits n - 1)"
    using k by (auto simp: e pow2_def nat_diff_distrib')
  have "real (Suc n) \<le> real (2 ^ bits n)"
    using hi by (intro of_nat_mono) simp
  then have "real n + 1 \<le> (2::real) ^ bits n"
    by (simp only: of_nat_power of_nat_numeral of_nat_Suc add.commute)
  with n(3) have "y \<le> 2 ^ bits n" by linarith
  then have "1 / 2 ^ bits n \<le> 1 / y"
    using y by (intro divide_left_mono) simp_all
  then have a: "pow2 (ilog2 x) \<le> x" by (simp add: p1 y_def)
  have "real (2 ^ (bits n - 1)) \<le> real n"
    using lo by (rule of_nat_mono)
  then have "(2::real) ^ (bits n - 1) \<le> real n"
    by (simp only: of_nat_power of_nat_numeral)
  with n(2) have "2 ^ (bits n - 1) < y" by linarith
  then have "1 / y < 1 / 2 ^ (bits n - 1)"
    using y by (intro divide_strict_left_mono mult_pos_pos) simp_all
  then have b: "x < pow2 (ilog2 x + 1)" by (simp add: p2 y_def)
  from a b show ?thesis ..
qed


lemma pow2_pos: "0 < pow2 k"
  by (simp add: pow2_def)

text \<open>
  By its definition \<open>fl x\<close> is an integer multiple of the unit in the last place of \<open>x\<close>.
  It lies within half a unit of \<open>x\<close>, and the multiple has at most 53 bits or is \<open>2^53\<close>
  (lemma \<open>fl_significand\<close>): \<open>fl x\<close> is a binary64 number, or stands for an infinity.
\<close>

lemma fl_error:
  assumes "x \<noteq> 0"
  shows "\<bar>fl x - x\<bar> \<le> pow2 (max (ilog2 \<bar>x\<bar>) (- 1022) - 52) / 2"
proof -
  define u where "u = pow2 (max (ilog2 \<bar>x\<bar>) (- 1022) - 52)"
  have u: "0 < u" by (simp add: u_def pow2_pos)
  have "fl x = real_of_int (round_even (x / u)) * u"
    using assms by (simp add: fl_def Let_def u_def)
  then have "fl x - x = (real_of_int (round_even (x / u)) - x / u) * u"
    using u by (simp add: field_simps)
  then have "\<bar>fl x - x\<bar> = \<bar>real_of_int (round_even (x / u)) - x / u\<bar> * u"
    using u by (simp add: abs_mult)
  also have "\<dots> \<le> 1 / 2 * u"
    using u round_even_error [of "x / u"] by (intro mult_right_mono) simp_all
  finally show ?thesis by (simp add: u_def)
qed

lemma pow2_powi: "pow2 k = 2 powi k"
  by (simp add: pow2_def power_int_def field_simps)

lemma round_even_mono_bound:
  assumes "\<bar>y\<bar> \<le> real_of_int n"
  shows "\<bar>round_even y\<bar> \<le> n"
proof -
  have "\<bar>real_of_int (round_even y) - y\<bar> \<le> 1 / 2" by (rule round_even_error)
  then have "\<bar>real_of_int (round_even y)\<bar> \<le> real_of_int n + 1 / 2"
    using assms by linarith
  then have "real_of_int \<bar>round_even y\<bar> < real_of_int (n + 1)"
    by simp
  then have "\<bar>round_even y\<bar> < n + 1"
    by (simp only: of_int_less_iff)
  then show ?thesis by simp
qed

lemma fl_significand:
  assumes "x \<noteq> 0"
  shows "\<bar>round_even (x / pow2 (max (ilog2 \<bar>x\<bar>) (- 1022) - 52))\<bar> \<le> 2 ^ 53"
proof -
  define e where "e = max (ilog2 \<bar>x\<bar>) (- 1022)"
  have "\<bar>x\<bar> < pow2 (ilog2 \<bar>x\<bar> + 1)"
    using assms ilog2_bounds [of "\<bar>x\<bar>"] by simp
  also have "\<dots> \<le> pow2 (e + 1)"
    unfolding pow2_powi e_def by (intro power_int_increasing) simp_all
  also have "\<dots> = 2 ^ 53 * pow2 (e - 52)"
    unfolding pow2_powi by (simp add: power_int_diff power_int_add)
  finally have "\<bar>x\<bar> / pow2 (e - 52) < 2 ^ 53"
    by (simp add: pow2_pos pos_divide_less_eq)
  then have "\<bar>x / pow2 (e - 52)\<bar> \<le> real_of_int (2 ^ 53)"
    using pow2_pos [of "e - 52"] by (simp add: abs_divide less_le)
  then have "\<bar>round_even (x / pow2 (e - 52))\<bar> \<le> 2 ^ 53"
    by (rule round_even_mono_bound)
  then show ?thesis by (simp add: e_def)
qed

subsection \<open>What one call of recv does\<close>

lemma update_max_bandwidth_SomeD:
  "update_max_bandwidth d r a = Some a1 \<Longrightarrow>
     a1 = a\<lparr>max_bandwidth := (if r = 0 then max_bandwidth a else max (max_bandwidth a) (ddiv d r))\<rparr>"
  by (auto simp: update_max_bandwidth_def Let_def max_def split: if_splits)

lemma update_min_rtt_SomeD:
  "update_min_rtt r a = Some a2 \<Longrightarrow> a2 = a\<lparr>min_rtt := min (min_rtt a) r\<rparr>"
  by (auto simp: update_min_rtt_def min_def split: if_splits)

lemma dmul_SomeD: "dmul x y = Some p \<Longrightarrow> p = fl (x * y)"
  by (auto simp: dmul_def Let_def split: if_splits)

lemma double_to_int_SomeD: "double_to_int x = Some c \<Longrightarrow> c = trunc x"
  by (simp add: double_to_int_def split: if_splits)

lemma state_machine_frame:
  "state_machine clock (cycle, a) = Some (cycle', a') \<Longrightarrow>
     max_bandwidth a' = max_bandwidth a \<and> min_rtt a' = min_rtt a \<and>
     pacing_rate a' = pacing_rate a \<and> size_agent a' = size_agent a \<and>
     cwnd_gain a' = cwnd_gain a"
  by (auto simp: state_machine_def Let_def
           split: BbrState.splits prod.splits bind_splits if_splits)

lemma recv_SomeD:
  assumes "recv clock pkt (cycle, a) = Some (cycle', a')"
  obtains a1 a2 a4 bdp window c where
    "update_max_bandwidth (real_of_int (hdr_cmn_size pkt)) (fl (clock - hdr_tcp_ts pkt)) a = Some a1"
    "update_min_rtt (fl (clock - hdr_tcp_ts pkt)) a1 = Some a2"
    "state_machine clock (cycle,
        (if state a2 \<noteq> PROBE_RTT then a2\<lparr>t_state_start := clock\<rparr> else a2)) = Some (cycle', a4)"
    "dmul (max_bandwidth a4) (min_rtt a4) = Some bdp"
    "dmul (cwnd_gain a4) bdp = Some window"
    "double_to_int window = Some c"
    "a' = a4\<lparr>cwnd := max c (size_agent a4)\<rparr>"
  using assms
  by (auto simp: recv_def Let_def max_def split: bind_splits prod.splits if_splits)

text \<open>Every field a call of \<open>recv\<close> leaves or sets whatever the state is.\<close>

lemma recv_result:
  assumes "recv clock pkt (cycle, a) = Some (cycle', a')"
  shows "pacing_rate a' = pacing_rate a"
    and "size_agent a' = size_agent a"
    and "cwnd_gain a' = cwnd_gain a"
    and "min_rtt a' = min (min_rtt a) (fl (clock - hdr_tcp_ts pkt))"
    and "max_bandwidth a' =
           (if fl (clock - hdr_tcp_ts pkt) = 0 then max_bandwidth a
            else max (max_bandwidth a)
                   (ddiv (real_of_int (hdr_cmn_size pkt)) (fl (clock - hdr_tcp_ts pkt))))"
    and "cwnd a' =
           max (trunc (fl (cwnd_gain a' * fl (max_bandwidth a' * min_rtt a')))) (size_agent a')"
proof -
  from assms obtain a1 a2 a4 bdp window c where
    a1: "update_max_bandwidth (real_of_int (hdr_cmn_size pkt)) (fl (clock - hdr_tcp_ts pkt)) a
           = Some a1"
    and a2: "update_min_rtt (fl (clock - hdr_tcp_ts pkt)) a1 = Some a2"
    and a4: "state_machine clock (cycle,
        (if state a2 \<noteq> PROBE_RTT then a2\<lparr>t_state_start := clock\<rparr> else a2)) = Some (cycle', a4)"
    and bdp: "dmul (max_bandwidth a4) (min_rtt a4) = Some bdp"
    and window: "dmul (cwnd_gain a4) bdp = Some window"
    and c: "double_to_int window = Some c"
    and a': "a' = a4\<lparr>cwnd := max c (size_agent a4)\<rparr>"
    by (rule recv_SomeD)
  note frame = state_machine_frame [OF a4]
  note a1_eq = update_max_bandwidth_SomeD [OF a1]
  note a2_eq = update_min_rtt_SomeD [OF a2]
  show "pacing_rate a' = pacing_rate a"
    using frame a' by (simp add: a2_eq a1_eq split: if_splits)
  show "size_agent a' = size_agent a"
    using frame a' by (simp add: a2_eq a1_eq split: if_splits)
  show "cwnd_gain a' = cwnd_gain a"
    using frame a' by (simp add: a2_eq a1_eq split: if_splits)
  show "min_rtt a' = min (min_rtt a) (fl (clock - hdr_tcp_ts pkt))"
    using frame a' by (simp add: a2_eq a1_eq split: if_splits)
  show "max_bandwidth a' =
           (if fl (clock - hdr_tcp_ts pkt) = 0 then max_bandwidth a
            else max (max_bandwidth a)
                   (ddiv (real_of_int (hdr_cmn_size pkt)) (fl (clock - hdr_tcp_ts pkt))))"
    using frame a' by (simp add: a2_eq a1_eq split: if_splits)
  show "cwnd a' =
           max (trunc (fl (cwnd_gain a' * fl (max_bandwidth a' * min_rtt a')))) (size_agent a')"
    using a' double_to_int_SomeD [OF c] dmul_SomeD [OF window] dmul_SomeD [OF bdp] by simp
qed

subsection \<open>Evaluating the model\<close>

text \<open>
  The roundings met by the concrete runs below, each computed from the definition of
  \<open>fl\<close>. The runs are then evaluated with \<open>fl\<close> folded and these values as rewrite rules.
\<close>

lemmas fl_defs = fl_def ilog2_def pow2_def round_even_def bits.simps Let_def

lemma fl_values:
  "fl (1 / 2) = 1 / 2"
  "fl 8 = 8"
  "fl 4 = 4"
  "fl 0 = 0"
  "fl (- 1) = - 1"
  "fl (- 5000) = - 5000"
  "fl 5000 = 5000"
  "fl (- 10000) = - 10000"
  "fl 1 = 1"
  "fl 16 = 16"
  "fl 32 = 32"
  "fl (1 / 20) = 3602879701896397 / 72057594037927936"
  "fl (360287970189639680000 / 3602879701896397) = 100000"
  "fl (11258999068426240625 / 2251799813685248) = 5000"
  "fl 10000 = 10000"
  "fl 100000 = 100000"
  "fl (14003 / 8) = 14003 / 8"
  "fl 14003 = 14003"
  "fl 28006 = 28006"
  "fl (14003 / 4) = 14003 / 4"
  "fl 19 = 19"
  "fl (1000 / 19) = 7407236229227789 / 140737488355328"
  "fl (140737488355327991 / 140737488355328) = 8796093022207999 / 8796093022208"
  "fl (8796093022207999 / 4398046511104) = 8796093022207999 / 4398046511104"
  "fl 3 = 3"
  "fl (512 / 3) = 6004799503160661 / 35184372088832"
  "fl (18014398509481983 / 35184372088832) = 512"
  "fl 1024 = 1024"
  "fl (65 / 64) = 65 / 64"
  "fl (64000 / 13) = 5412980321358769 / 1099511627776"
  "fl (351843720888319985 / 70368744177664) = 5000"
  "fl 2 = 2"
  "fl 100 = 100"
  "fl (1 / 100) = 5764607523034235 / 576460752303423488"
  "fl 20000 = 20000"
  "fl 40000 = 40000"
  "fl 14 = 14"
  "fl (1 / 8) = 1 / 8"
  "fl (1 / 5) = 3602879701896397 / 18014398509481984"
  "fl (19 / 20) = 4278419646001971 / 4503599627370496"
  "fl (225179981368525 / 4503599627370496) = 225179981368525 / 4503599627370496"
  "fl (900719925474099200 / 9007199254741) = 3435973836799997 / 34359738368"
  "fl (773712524553362683466775894425 / 154742504910672534362390528) = 5000"
  "fl (3602879701896397 / 18014398509481984) = 3602879701896397 / 18014398509481984"
  "fl (1 / 4) = 1 / 4"
  by (simp_all add: fl_defs)

lemmas bbr_defs = recv_def state_machine_def update_max_bandwidth_def update_min_rtt_def
  bandwidth_growth_slows_def target_inflight_def cycle_gain_def time_to_probe_rtt_def
  rtt_stable_for_long_enough_def double_to_int_def int_mul_def in_int_def trunc_def
  int_rem_def new_TcpBbrAgent_def sendmsg_def timeout_def sample_def
  dmul_def ddiv_def is_finite_def double_max_def Let_def fl_values

subsection \<open>The initial state\<close>

text \<open>
  Claim C10. Right after construction \<open>cwnd\<close> is 0 and \<open>pacing_rate\<close> is 0. For a
  positive segment size the window is therefore below \<open>size_agent\<close> in the initial
  state; after the first call of \<open>recv\<close> (whenever it is defined) it is at least
  \<open>size_agent\<close>.
\<close>

theorem C10_initial_window_below_floor:
  "cwnd (new_TcpBbrAgent sz) = 0 \<and> pacing_rate (new_TcpBbrAgent sz) = 0 \<and>
   (0 < sz \<longrightarrow> cwnd (new_TcpBbrAgent sz) < size_agent (new_TcpBbrAgent sz)) \<and>
   (recv clock pkt (cycle, new_TcpBbrAgent sz) = Some (cycle', a') \<longrightarrow>
      size_agent a' \<le> cwnd a')"
proof -
  have "size_agent a' \<le> cwnd a'"
    if "recv clock pkt (cycle, new_TcpBbrAgent sz) = Some (cycle', a')"
    using recv_result(6) [OF that] by simp
  then show ?thesis
    by (simp add: new_TcpBbrAgent_def)
qed

theorem C10_witness:
  "cwnd (new_TcpBbrAgent 1000) = 0 \<and> pacing_rate (new_TcpBbrAgent 1000) = 0 \<and>
   (0::int) < 1000 \<and> cwnd (new_TcpBbrAgent 1000) < size_agent (new_TcpBbrAgent 1000) \<and>
   recv 1 \<lparr>hdr_tcp_ts = 1 / 2, hdr_cmn_size = 4\<rparr> (0, new_TcpBbrAgent 1000) =
     Some (0, (new_TcpBbrAgent 1000)
                \<lparr>max_bandwidth := 8, min_rtt := 1 / 2, cwnd := 1000, t_state_start := 1\<rparr>) \<and>
   size_agent ((new_TcpBbrAgent 1000)
                \<lparr>max_bandwidth := 8, min_rtt := 1 / 2, cwnd := 1000, t_state_start := 1\<rparr>)
     \<le> cwnd ((new_TcpBbrAgent 1000)
                \<lparr>max_bandwidth := 8, min_rtt := 1 / 2, cwnd := 1000, t_state_start := 1\<rparr>)"
proof -
  have r: "recv 1 \<lparr>hdr_tcp_ts = 1 / 2, hdr_cmn_size = 4\<rparr> (0, new_TcpBbrAgent 1000) =
     Some (0, (new_TcpBbrAgent 1000)
                \<lparr>max_bandwidth := 8, min_rtt := 1 / 2, cwnd := 1000, t_state_start := 1\<rparr>)"
    by (simp add: bbr_defs)
  show ?thesis
    using C10_initial_window_below_floor
      [of 1000 1 "\<lparr>hdr_tcp_ts = 1 / 2, hdr_cmn_size = 4\<rparr>" 0 0
          "(new_TcpBbrAgent 1000)
             \<lparr>max_bandwidth := 8, min_rtt := 1 / 2, cwnd := 1000, t_state_start := 1\<rparr>"] r
    by simp
qed

subsection \<open>When recv is defined\<close>

text \<open>
  \<open>recv\<close> is \<open>None\<close> only where C++ leaves the call undefined: a positive size divided
  by a zero round-trip time, an estimate that becomes infinite, a product with
  \<open>size_agent\<close> that overflows, or a window beyond the range of \<^verbatim>\<open>int\<close>.
\<close>

lemma update_max_bandwidth_defined:
  "r \<noteq> 0 \<or> d \<le> 0 \<Longrightarrow> is_finite (ddiv d r) \<Longrightarrow>
     update_max_bandwidth d r a =
       Some (a\<lparr>max_bandwidth :=
                 (if r = 0 then max_bandwidth a else max (max_bandwidth a) (ddiv d r))\<rparr>)"
  by (auto simp: update_max_bandwidth_def Let_def max_def)

lemma update_min_rtt_defined:
  "is_finite r \<Longrightarrow> update_min_rtt r a = Some (a\<lparr>min_rtt := min (min_rtt a) r\<rparr>)"
  by (auto simp: update_min_rtt_def min_def)

lemma state_machine_defined:
  assumes "in_int (10 * size_agent a)" and "in_int (4 * size_agent a)"
    and "is_finite (fl (max_bandwidth a * min_rtt a))"
    and "in_int (trunc (fl (max_bandwidth a * min_rtt a)))"
  shows "\<exists>cycle' a'. state_machine clock (cycle, a) = Some (cycle', a')"
proof (cases "state a")
  case STARTUP
  then show ?thesis
    using assms(1) by (simp add: state_machine_def bandwidth_growth_slows_def int_mul_def)
next
  case DRAIN
  then show ?thesis
    using assms(3,4)
    by (simp add: state_machine_def target_inflight_def dmul_def double_to_int_def Let_def)
next
  case PROBE_BW
  then show ?thesis
    by (simp add: state_machine_def Let_def split: prod.splits)
next
  case PROBE_RTT
  then show ?thesis
    using assms(2) by (simp add: state_machine_def int_mul_def Let_def)
qed

lemma recv_defined:
  assumes rtt: "rtt = fl (clock - hdr_tcp_ts pkt)"
    and ok: "rtt \<noteq> 0 \<or> hdr_cmn_size pkt \<le> 0"
    and fin: "is_finite rtt" "is_finite (ddiv (real_of_int (hdr_cmn_size pkt)) rtt)"
    and sz: "in_int (10 * size_agent a)" "in_int (4 * size_agent a)"
    and bw: "bw = (if rtt = 0 then max_bandwidth a
               else max (max_bandwidth a) (ddiv (real_of_int (hdr_cmn_size pkt)) rtt))"
    and bdp: "is_finite (fl (bw * min (min_rtt a) rtt))"
      "in_int (trunc (fl (bw * min (min_rtt a) rtt)))"
    and win: "is_finite (fl (cwnd_gain a * fl (bw * min (min_rtt a) rtt)))"
      "in_int (trunc (fl (cwnd_gain a * fl (bw * min (min_rtt a) rtt))))"
  shows "\<exists>w'. recv clock pkt (cycle, a) = Some w'"
proof -
  define a1 where "a1 = a\<lparr>max_bandwidth := bw\<rparr>"
  define a2 where "a2 = a1\<lparr>min_rtt := min (min_rtt a1) rtt\<rparr>"
  define a3 where "a3 = (if state a2 \<noteq> PROBE_RTT then a2\<lparr>t_state_start := clock\<rparr> else a2)"
  have ok': "rtt \<noteq> 0 \<or> real_of_int (hdr_cmn_size pkt) \<le> 0"
    using ok by simp
  have u: "update_max_bandwidth (real_of_int (hdr_cmn_size pkt)) rtt a = Some a1"
    using update_max_bandwidth_defined [OF ok' fin(2)] by (simp add: a1_def bw)
  have m: "update_min_rtt rtt a1 = Some a2"
    using update_min_rtt_defined [OF fin(1)] by (simp add: a2_def)
  have a3: "size_agent a3 = size_agent a" "max_bandwidth a3 = bw"
    "min_rtt a3 = min (min_rtt a) rtt" "cwnd_gain a3 = cwnd_gain a"
    by (simp_all add: a3_def a2_def a1_def)
  have "\<exists>cycle' a4. state_machine clock (cycle, a3) = Some (cycle', a4)"
    using sz bdp by (intro state_machine_defined) (simp_all add: a3)
  then obtain cycle' a4 where s: "state_machine clock (cycle, a3) = Some (cycle', a4)"
    by blast
  note frame = state_machine_frame [OF s]
  have p: "dmul (max_bandwidth a4) (min_rtt a4) = Some (fl (bw * min (min_rtt a) rtt))"
    using bdp(1) frame by (simp add: dmul_def a3)
  have q: "dmul (cwnd_gain a4) (fl (bw * min (min_rtt a) rtt)) =
      Some (fl (cwnd_gain a * fl (bw * min (min_rtt a) rtt)))"
    using win(1) frame by (simp add: dmul_def a3)
  have d: "double_to_int (fl (cwnd_gain a * fl (bw * min (min_rtt a) rtt))) =
      Some (trunc (fl (cwnd_gain a * fl (bw * min (min_rtt a) rtt))))"
    using win(2) by (simp add: double_to_int_def)
  show ?thesis
    using u m s p q d by (simp add: recv_def Let_def a3_def rtt [symmetric])
qed

lemma run_cwnd_gain:
  "run evs (cycle, a) = Some (cycle', a') \<Longrightarrow> cwnd_gain a' = cwnd_gain a"
proof (induction evs arbitrary: cycle a)
  case Nil
  then show ?case by simp
next
  case (Cons e es)
  from Cons.prems obtain c1 a1 where
    s: "step e (cycle, a) = Some (c1, a1)" and r: "run es (c1, a1) = Some (cycle', a')"
    by (auto split: bind_splits)
  have "cwnd_gain a1 = cwnd_gain a"
  proof (cases e)
    case (Recv clock pkt)
    with s show ?thesis by (simp add: recv_result(3))
  next
    case Sendmsg
    with s show ?thesis by (auto simp: sendmsg_def)
  next
    case Timeout
    with s show ?thesis by (auto simp: timeout_def)
  qed
  with Cons.IH [OF r] show ?case by simp
qed

subsection \<open>Samples that are not valid\<close>

text \<open>
  Claim C1, as amended. \<open>recv\<close> does not check the sample, rejects nothing and has no
  result but the new state. Let \<open>rtt\<close> be the double \<open>fl (clock - ts)\<close> that \<open>recv\<close>
  computes. For a sample with \<open>delivered \<le> 0\<close> or \<open>rtt \<le> 0\<close>: a positive size with
  \<open>rtt = 0\<close> makes the call undefined (the quotient is infinite); wherever the call is
  defined, \<open>pacing_rate\<close> is unchanged, \<open>min_rtt\<close> becomes the minimum of its old value and
  \<open>rtt\<close>, \<open>max_bandwidth\<close> becomes the maximum of its old value and the double quotient
  \<open>delivered / rtt\<close> (unchanged when \<open>rtt = 0\<close>), and \<open>cwnd\<close> is computed anew from the
  updated estimates: the double product \<open>cwnd_gain * (max_bandwidth * min_rtt)\<close>, each
  multiplication rounded, then truncated and raised to \<open>size_agent\<close>.
\<close>

theorem C1_invalid_sample_is_processed:
  assumes "hdr_cmn_size pkt \<le> 0 \<or> fl (clock - hdr_tcp_ts pkt) \<le> 0"
  shows "(0 < hdr_cmn_size pkt \<and> fl (clock - hdr_tcp_ts pkt) = 0 \<longrightarrow>
            recv clock pkt (cycle, a) = None) \<and>
         (recv clock pkt (cycle, a) = Some (cycle', a') \<longrightarrow>
            pacing_rate a' = pacing_rate a \<and>
            min_rtt a' = min (min_rtt a) (fl (clock - hdr_tcp_ts pkt)) \<and>
            max_bandwidth a' =
              (if fl (clock - hdr_tcp_ts pkt) = 0 then max_bandwidth a
               else max (max_bandwidth a)
                      (ddiv (real_of_int (hdr_cmn_size pkt)) (fl (clock - hdr_tcp_ts pkt)))) \<and>
            cwnd a' =
              max (trunc (fl (cwnd_gain a * fl (max_bandwidth a' * min_rtt a')))) (size_agent a))"
proof (intro conjI impI)
  assume "0 < hdr_cmn_size pkt \<and> fl (clock - hdr_tcp_ts pkt) = 0"
  then show "recv clock pkt (cycle, a) = None"
    by (simp add: recv_def update_max_bandwidth_def)
next
  assume r: "recv clock pkt (cycle, a) = Some (cycle', a')"
  show "pacing_rate a' = pacing_rate a"
    by (rule recv_result(1) [OF r])
  show "min_rtt a' = min (min_rtt a) (fl (clock - hdr_tcp_ts pkt))"
    by (rule recv_result(4) [OF r])
  show "max_bandwidth a' =
          (if fl (clock - hdr_tcp_ts pkt) = 0 then max_bandwidth a
           else max (max_bandwidth a)
                  (ddiv (real_of_int (hdr_cmn_size pkt)) (fl (clock - hdr_tcp_ts pkt))))"
    by (rule recv_result(5) [OF r])
  show "cwnd a' =
          max (trunc (fl (cwnd_gain a * fl (max_bandwidth a' * min_rtt a')))) (size_agent a)"
    using recv_result(2,3,6) [OF r] by simp
qed

text \<open>
  The witness starts from the state the valid sample \<open>(5000, 1.015625)\<close> leaves, where the
  stored bandwidth is a rounded quotient. The sample \<open>(0, 2)\<close> is not valid and is
  processed: the window is computed again and is 10000 (the product of the stored
  estimates rounds up to 5000; in exact arithmetic it would be below, and the window
  9999). The sample \<open>(5000, 0)\<close> makes the call undefined.
\<close>

theorem C1_witness:
  "run [sample (65 / 64) 5000 (65 / 64)] (0, new_TcpBbrAgent 1000) =
     Some (0, \<lparr>size_agent = 1000, pacing_gain = 1, cwnd_gain = 2,
            max_bandwidth = 5412980321358769 / 1099511627776, min_rtt = 65 / 64,
            pacing_rate = 0, cwnd = 10000, state = STARTUP,
            t_last_rtt_probe = 0, t_state_start = 65 / 64\<rparr>) \<and>
   hdr_cmn_size \<lparr>hdr_tcp_ts = 0, hdr_cmn_size = 0\<rparr> \<le> 0 \<and>
   recv 2 \<lparr>hdr_tcp_ts = 0, hdr_cmn_size = 0\<rparr>
      (0, \<lparr>size_agent = 1000, pacing_gain = 1, cwnd_gain = 2,
            max_bandwidth = 5412980321358769 / 1099511627776, min_rtt = 65 / 64,
            pacing_rate = 0, cwnd = 10000, state = STARTUP,
            t_last_rtt_probe = 0, t_state_start = 65 / 64\<rparr>) =
     Some (0, \<lparr>size_agent = 1000, pacing_gain = 1, cwnd_gain = 2,
            max_bandwidth = 5412980321358769 / 1099511627776, min_rtt = 65 / 64,
            pacing_rate = 0, cwnd = 10000, state = STARTUP,
            t_last_rtt_probe = 0, t_state_start = 2\<rparr>) \<and>
   (65 / 64 :: real) = min (65 / 64) (fl (2 - 0)) \<and>
   (10000::int) =
     max (trunc (fl (2 * fl (5412980321358769 / 1099511627776 * (65 / 64))))) 1000 \<and>
   fl (1 - hdr_tcp_ts \<lparr>hdr_tcp_ts = 1, hdr_cmn_size = 5000\<rparr>) \<le> 0 \<and>
   0 < hdr_cmn_size \<lparr>hdr_tcp_ts = 1, hdr_cmn_size = 5000\<rparr> \<and>
   recv 1 \<lparr>hdr_tcp_ts = 1, hdr_cmn_size = 5000\<rparr> (0, new_TcpBbrAgent 1000) = None"
proof -
  have reach: "run [sample (65 / 64) 5000 (65 / 64)] (0, new_TcpBbrAgent 1000) =
     Some (0, \<lparr>size_agent = 1000, pacing_gain = 1, cwnd_gain = 2,
            max_bandwidth = 5412980321358769 / 1099511627776, min_rtt = 65 / 64,
            pacing_rate = 0, cwnd = 10000, state = STARTUP,
            t_last_rtt_probe = 0, t_state_start = 65 / 64\<rparr>)"
    by (simp add: bbr_defs)
  have r: "recv 2 \<lparr>hdr_tcp_ts = 0, hdr_cmn_size = 0\<rparr>
      (0, \<lparr>size_agent = 1000, pacing_gain = 1, cwnd_gain = 2,
            max_bandwidth = 5412980321358769 / 1099511627776, min_rtt = 65 / 64,
            pacing_rate = 0, cwnd = 10000, state = STARTUP,
            t_last_rtt_probe = 0, t_state_start = 65 / 64\<rparr>) =
     Some (0, \<lparr>size_agent = 1000, pacing_gain = 1, cwnd_gain = 2,
            max_bandwidth = 5412980321358769 / 1099511627776, min_rtt = 65 / 64,
            pacing_rate = 0, cwnd = 10000, state = STARTUP,
            t_last_rtt_probe = 0, t_state_start = 2\<rparr>)"
    by (simp add: bbr_defs)
  have some: "(65 / 64 :: real) = min (65 / 64) (fl (2 - 0)) \<and>
      (10000::int) =
        max (trunc (fl (2 * fl (5412980321358769 / 1099511627776 * (65 / 64))))) 1000"
    using C1_invalid_sample_is_processed
      [of "\<lparr>hdr_tcp_ts = 0, hdr_cmn_size = 0\<rparr>" 2 0
          "\<lparr>size_agent = 1000, pacing_gain = 1, cwnd_gain = 2,
            max_bandwidth = 5412980321358769 / 1099511627776, min_rtt = 65 / 64,
            pacing_rate = 0, cwnd = 10000, state = STARTUP,
            t_last_rtt_probe = 0, t_state_start = 65 / 64\<rparr>" 0
          "\<lparr>size_agent = 1000, pacing_gain = 1, cwnd_gain = 2,
            max_bandwidth = 5412980321358769 / 1099511627776, min_rtt = 65 / 64,
            pacing_rate = 0, cwnd = 10000, state = STARTUP,
            t_last_rtt_probe = 0, t_state_start = 2\<rparr>"] r
    by simp
  have none: "recv 1 \<lparr>hdr_tcp_ts = 1, hdr_cmn_size = 5000\<rparr> (0, new_TcpBbrAgent 1000) = None"
    using C1_invalid_sample_is_processed
      [of "\<lparr>hdr_tcp_ts = 1, hdr_cmn_size = 5000\<rparr>" 1 0 "new_TcpBbrAgent 1000"]
    by (simp add: fl_values)
  show ?thesis
    using reach r some none by (simp add: fl_values)
qed

text \<open>
  The claim as stated fails. On the fresh agent, the sample \<open>(0, 1/2)\<close> moves \<open>min_rtt\<close>
  and \<open>cwnd\<close>; the sample \<open>(5000, -1)\<close> moves \<open>min_rtt\<close> to \<open>-1\<close>; the sample
  \<open>(-5000, -1)\<close> stores the quotient \<open>5000\<close> in \<open>max_bandwidth\<close>. Each call returns a state.
\<close>

theorem C1_counterexample:
  "recv 1 \<lparr>hdr_tcp_ts = 1 / 2, hdr_cmn_size = 0\<rparr> (0, new_TcpBbrAgent 1000) =
     Some (0, \<lparr>size_agent = 1000, pacing_gain = 1, cwnd_gain = 2, max_bandwidth = 0,
               min_rtt = 1 / 2, pacing_rate = 0, cwnd = 1000, state = STARTUP,
               t_last_rtt_probe = 0, t_state_start = 1\<rparr>) \<and>
   recv 1 \<lparr>hdr_tcp_ts = 2, hdr_cmn_size = 5000\<rparr> (0, new_TcpBbrAgent 1000) =
     Some (0, \<lparr>size_agent = 1000, pacing_gain = 1, cwnd_gain = 2, max_bandwidth = 0,
               min_rtt = - 1, pacing_rate = 0, cwnd = 1000, state = STARTUP,
               t_last_rtt_probe = 0, t_state_start = 1\<rparr>) \<and>
   recv 1 \<lparr>hdr_tcp_ts = 2, hdr_cmn_size = - 5000\<rparr> (0, new_TcpBbrAgent 1000) =
     Some (0, \<lparr>size_agent = 1000, pacing_gain = 1, cwnd_gain = 2, max_bandwidth = 5000,
               min_rtt = - 1, pacing_rate = 0, cwnd = 1000, state = STARTUP,
               t_last_rtt_probe = 0, t_state_start = 1\<rparr>) \<and>
   min_rtt (new_TcpBbrAgent 1000) \<noteq> 1 / 2 \<and> min_rtt (new_TcpBbrAgent 1000) \<noteq> - 1 \<and>
   cwnd (new_TcpBbrAgent 1000) \<noteq> 1000 \<and> max_bandwidth (new_TcpBbrAgent 1000) \<noteq> 5000"
  by (simp add: bbr_defs)

subsection \<open>The pacing rate\<close>

text \<open>
  Claim C3, as amended. \<open>recv\<close> leaves \<open>pacing_rate\<close> as it was. The rate is assigned by
  \<open>sendmsg\<close>: after the next \<open>sendmsg\<close> it equals the double product
  \<open>pacing_gain * max_bandwidth\<close> of the state \<open>recv\<close> produced, and \<open>sendmsg\<close> changes
  neither factor.
\<close>

theorem C3_pacing_rate_set_by_sendmsg:
  assumes "recv clock pkt (cycle, a) = Some (cycle', a')"
  shows "pacing_rate a' = pacing_rate a \<and>
         pacing_rate (sendmsg a') = fl (pacing_gain a' * max_bandwidth a') \<and>
         pacing_gain (sendmsg a') = pacing_gain a' \<and>
         max_bandwidth (sendmsg a') = max_bandwidth a'"
  using recv_result(1) [OF assms] by (simp add: sendmsg_def)

theorem C3_witness:
  "recv 2 \<lparr>hdr_tcp_ts = 1, hdr_cmn_size = 16\<rparr> (0, new_TcpBbrAgent 1000) =
     Some (0, \<lparr>size_agent = 1000, pacing_gain = 1, cwnd_gain = 2, max_bandwidth = 16,
               min_rtt = 1, pacing_rate = 0, cwnd = 1000, state = STARTUP,
               t_last_rtt_probe = 0, t_state_start = 2\<rparr>) \<and>
   pacing_rate (new_TcpBbrAgent 1000) = 0 \<and>
   pacing_rate (sendmsg \<lparr>size_agent = 1000, pacing_gain = 1, cwnd_gain = 2, max_bandwidth = 16,
               min_rtt = 1, pacing_rate = 0, cwnd = 1000, state = STARTUP,
               t_last_rtt_probe = 0, t_state_start = 2\<rparr>) = 1 * 16"
proof -
  have r: "recv 2 \<lparr>hdr_tcp_ts = 1, hdr_cmn_size = 16\<rparr> (0, new_TcpBbrAgent 1000) =
     Some (0, \<lparr>size_agent = 1000, pacing_gain = 1, cwnd_gain = 2, max_bandwidth = 16,
               min_rtt = 1, pacing_rate = 0, cwnd = 1000, state = STARTUP,
               t_last_rtt_probe = 0, t_state_start = 2\<rparr>)"
    by (simp add: bbr_defs)
  show ?thesis
    using C3_pacing_rate_set_by_sendmsg [OF r] r by (simp add: fl_values)
qed

text \<open>
  The claim as stated fails: after one sample on the fresh agent \<open>pacing_rate\<close> is still 0,
  while \<open>pacing_gain * max_bandwidth\<close> is 16.
\<close>

theorem C3_counterexample:
  "recv 2 \<lparr>hdr_tcp_ts = 1, hdr_cmn_size = 16\<rparr> (0, new_TcpBbrAgent 1000) =
     Some (0, \<lparr>size_agent = 1000, pacing_gain = 1, cwnd_gain = 2, max_bandwidth = 16,
               min_rtt = 1, pacing_rate = 0, cwnd = 1000, state = STARTUP,
               t_last_rtt_probe = 0, t_state_start = 2\<rparr>) \<and>
   (0::real) \<noteq> 1 * 16"
  by (simp add: bbr_defs)

subsection \<open>The estimates\<close>

text \<open>
  Claim C5. For a valid sample (\<open>delivered > 0\<close>, \<open>rtt > 0\<close>) and any state before the
  call, \<open>max_bandwidth\<close> after \<open>recv\<close> is at least its value before and \<open>min_rtt\<close> is at
  most its value before. The state before is arbitrary, so this holds after each call of
  every sequence. Lemma \<open>recv_defined\<close> says when the call is defined.
\<close>

theorem C5_estimates_monotone:
  assumes "0 < hdr_cmn_size pkt" and "0 < clock - hdr_tcp_ts pkt"
    and "recv clock pkt (cycle, a) = Some (cycle', a')"
  shows "max_bandwidth a \<le> max_bandwidth a' \<and> min_rtt a' \<le> min_rtt a"
  using recv_result(4,5) [OF assms(3)] by (simp split: if_splits)

theorem C5_witness:
  "(0::int) < hdr_cmn_size \<lparr>hdr_tcp_ts = 1, hdr_cmn_size = 16\<rparr> \<and>
   (0::real) < 2 - hdr_tcp_ts \<lparr>hdr_tcp_ts = 1, hdr_cmn_size = 16\<rparr> \<and>
   recv 2 \<lparr>hdr_tcp_ts = 1, hdr_cmn_size = 16\<rparr> (0, new_TcpBbrAgent 1000) =
     Some (0, \<lparr>size_agent = 1000, pacing_gain = 1, cwnd_gain = 2, max_bandwidth = 16,
               min_rtt = 1, pacing_rate = 0, cwnd = 1000, state = STARTUP,
               t_last_rtt_probe = 0, t_state_start = 2\<rparr>) \<and>
   max_bandwidth (new_TcpBbrAgent 1000) \<le> 16 \<and> 1 \<le> min_rtt (new_TcpBbrAgent 1000)"
proof -
  have r: "recv 2 \<lparr>hdr_tcp_ts = 1, hdr_cmn_size = 16\<rparr> (0, new_TcpBbrAgent 1000) =
     Some (0, \<lparr>size_agent = 1000, pacing_gain = 1, cwnd_gain = 2, max_bandwidth = 16,
               min_rtt = 1, pacing_rate = 0, cwnd = 1000, state = STARTUP,
               t_last_rtt_probe = 0, t_state_start = 2\<rparr>)"
    by (simp add: bbr_defs)
  show ?thesis
    using C5_estimates_monotone [OF _ _ r] r by simp
qed

subsection \<open>Scenario A\<close>

text \<open>
  Claim C6, as amended. On the fresh agent with segment size 1000, the sample
  \<open>(5000, 0.05)\<close> at any time \<open>now\<close> gives \<open>max_bandwidth = 100000\<close> and \<open>cwnd = 10000\<close>
  and leaves \<open>pacing_rate = 0\<close>; the \<open>sendmsg\<close> that follows sets \<open>pacing_rate = 100000\<close>.
  The round-trip time \<open>recv\<close> computes is the double nearest to 0.05, which is what
  \<open>min_rtt\<close> holds afterwards.
\<close>

theorem C6_scenario_A:
  "run [sample now 5000 0.05] (cycle, new_TcpBbrAgent 1000) =
     Some (cycle, \<lparr>size_agent = 1000, pacing_gain = 1, cwnd_gain = 2,
            max_bandwidth = 100000, min_rtt = fl 0.05,
            pacing_rate = 0, cwnd = 10000, state = STARTUP,
            t_last_rtt_probe = 0, t_state_start = now\<rparr>) \<and>
   run [sample now 5000 0.05, Sendmsg] (cycle, new_TcpBbrAgent 1000) =
     Some (cycle, \<lparr>size_agent = 1000, pacing_gain = 1, cwnd_gain = 2,
            max_bandwidth = 100000, min_rtt = fl 0.05,
            pacing_rate = 100000, cwnd = 10000, state = STARTUP,
            t_last_rtt_probe = 0, t_state_start = now\<rparr>)"
  by (simp add: bbr_defs)

text \<open>The claim as stated fails: after the sample alone \<open>pacing_rate\<close> is 0, not 100000.\<close>

theorem C6_counterexample:
  "run [sample 1 5000 0.05] (0, new_TcpBbrAgent 1000) =
     Some (0, \<lparr>size_agent = 1000, pacing_gain = 1, cwnd_gain = 2,
            max_bandwidth = 100000, min_rtt = fl 0.05,
            pacing_rate = 0, cwnd = 10000, state = STARTUP,
            t_last_rtt_probe = 0, t_state_start = 1\<rparr>) \<and>
   (0::real) \<noteq> 100000"
  by (simp add: bbr_defs)

subsection \<open>The window\<close>

text \<open>
  Claim C7, as amended. In every state reached from the constructor, a call of \<open>recv\<close>
  that ends outside \<open>PROBE_RTT\<close> sets \<open>cwnd\<close> to the double product
  \<open>2.0 * (max_bandwidth * min_rtt)\<close>, the inner product rounded to a double and then the
  outer one, with the fraction dropped (towards zero), not rounded to the nearest
  integer, and then raised to \<open>size_agent\<close> if it is below.
\<close>

theorem C7_window_truncates:
  assumes "run evs (cycle0, new_TcpBbrAgent sz) = Some (cycle, a)"
    and "recv clock pkt (cycle, a) = Some (cycle', a')"
    and "state a' \<noteq> PROBE_RTT"
  shows "cwnd a' =
           max (trunc (fl (2.0 * fl (max_bandwidth a' * min_rtt a')))) (size_agent a')"
proof -
  have "cwnd_gain a = 2"
    using run_cwnd_gain [OF assms(1)] by (simp add: new_TcpBbrAgent_def)
  then have "cwnd_gain a' = 2"
    using recv_result(3) [OF assms(2)] by simp
  then show ?thesis
    using recv_result(6) [OF assms(2)] by simp
qed

text \<open>
  The witness is the sample \<open>(1000, 19)\<close> on the fresh agent: the stored bandwidth is
  the rounded quotient, its product with 19 rounds to a double just below 1000, and the
  window is 1999.
\<close>

theorem C7_witness:
  "run [] (0, new_TcpBbrAgent 1000) = Some (0, new_TcpBbrAgent 1000) \<and>
   recv 19 \<lparr>hdr_tcp_ts = 0, hdr_cmn_size = 1000\<rparr> (0, new_TcpBbrAgent 1000) =
     Some (0, \<lparr>size_agent = 1000, pacing_gain = 1, cwnd_gain = 2,
            max_bandwidth = 7407236229227789 / 140737488355328, min_rtt = 19,
            pacing_rate = 0, cwnd = 1999, state = STARTUP,
            t_last_rtt_probe = 0, t_state_start = 19\<rparr>) \<and>
   STARTUP \<noteq> PROBE_RTT \<and>
   (1999::int) = max (trunc (fl (2.0 * fl (7407236229227789 / 140737488355328 * 19)))) 1000"
proof -
  have reach: "run [] (0, new_TcpBbrAgent 1000) = Some (0, new_TcpBbrAgent 1000)"
    by simp
  have r: "recv 19 \<lparr>hdr_tcp_ts = 0, hdr_cmn_size = 1000\<rparr> (0, new_TcpBbrAgent 1000) =
     Some (0, \<lparr>size_agent = 1000, pacing_gain = 1, cwnd_gain = 2,
            max_bandwidth = 7407236229227789 / 140737488355328, min_rtt = 19,
            pacing_rate = 0, cwnd = 1999, state = STARTUP,
            t_last_rtt_probe = 0, t_state_start = 19\<rparr>)"
    by (simp add: bbr_defs)
  show ?thesis
    using C7_window_truncates [OF reach r] reach r by (simp add: fl_values)
qed

text \<open>
  The claim as stated fails: after the samples \<open>(14003, 8)\<close> and \<open>(1, 1)\<close> the product is
  3500.75; the window is 3500, and rounding would give 3501.
\<close>

theorem C7_counterexample:
  "run [sample 1 14003 8, sample 2 1 1] (0, new_TcpBbrAgent 1000) =
     Some (0, \<lparr>size_agent = 1000, pacing_gain = 1, cwnd_gain = 2, max_bandwidth = 1750.375,
               min_rtt = 1, pacing_rate = 0, cwnd = 3500, state = DRAIN,
               t_last_rtt_probe = 0, t_state_start = 2\<rparr>) \<and>
   max (round (2 * 1750.375 * (1::real))) 1000 = 3501 \<and> (3500::int) \<noteq> 3501"
  by (simp add: bbr_defs round_def)

text \<open>
  Where the rounding of the quotient and of the products shows in the window. On the
  fresh agent the samples \<open>(1000, 19)\<close>, \<open>(512, 3)\<close> and \<open>(5000, 1.015625)\<close> give the windows
  1999, 1024 and 10000 (exact arithmetic would give 2000, 1024 and 10000 from the
  samples, and 1999, 1023 and 9999 from the stored estimates); after the third, the
  valid sample \<open>(1, 100)\<close> leaves the window at 10000. The last line is a packet
  stamped with the double 0.95 and acknowledged at time 1: the round-trip time is a
  double a little above 0.05, and the bandwidth a little below 100000.
\<close>

lemma window_rounding_examples:
  "recv 19 \<lparr>hdr_tcp_ts = 0, hdr_cmn_size = 1000\<rparr> (0, new_TcpBbrAgent 1000) =
     Some (0, \<lparr>size_agent = 1000, pacing_gain = 1, cwnd_gain = 2,
            max_bandwidth = 7407236229227789 / 140737488355328, min_rtt = 19,
            pacing_rate = 0, cwnd = 1999, state = STARTUP,
            t_last_rtt_probe = 0, t_state_start = 19\<rparr>)"
  "recv 3 \<lparr>hdr_tcp_ts = 0, hdr_cmn_size = 512\<rparr> (0, new_TcpBbrAgent 1000) =
     Some (0, \<lparr>size_agent = 1000, pacing_gain = 1, cwnd_gain = 2,
            max_bandwidth = 6004799503160661 / 35184372088832, min_rtt = 3,
            pacing_rate = 0, cwnd = 1024, state = STARTUP,
            t_last_rtt_probe = 0, t_state_start = 3\<rparr>)"
  "recv (65 / 64) \<lparr>hdr_tcp_ts = 0, hdr_cmn_size = 5000\<rparr> (0, new_TcpBbrAgent 1000) =
     Some (0, \<lparr>size_agent = 1000, pacing_gain = 1, cwnd_gain = 2,
            max_bandwidth = 5412980321358769 / 1099511627776, min_rtt = 65 / 64,
            pacing_rate = 0, cwnd = 10000, state = STARTUP,
            t_last_rtt_probe = 0, t_state_start = 65 / 64\<rparr>)"
  "recv 100 \<lparr>hdr_tcp_ts = 0, hdr_cmn_size = 1\<rparr>
      (0, \<lparr>size_agent = 1000, pacing_gain = 1, cwnd_gain = 2,
            max_bandwidth = 5412980321358769 / 1099511627776, min_rtt = 65 / 64,
            pacing_rate = 0, cwnd = 10000, state = STARTUP,
            t_last_rtt_probe = 0, t_state_start = 65 / 64\<rparr>) =
     Some (0, \<lparr>size_agent = 1000, pacing_gain = 1, cwnd_gain = 2,
            max_bandwidth = 5412980321358769 / 1099511627776, min_rtt = 65 / 64,
            pacing_rate = 0, cwnd = 10000, state = STARTUP,
            t_last_rtt_probe = 0, t_state_start = 100\<rparr>)"
  "recv 1 \<lparr>hdr_tcp_ts = fl 0.95, hdr_cmn_size = 5000\<rparr> (0, new_TcpBbrAgent 1000) =
     Some (0, \<lparr>size_agent = 1000, pacing_gain = 1, cwnd_gain = 2,
            max_bandwidth = 3435973836799997 / 34359738368, min_rtt = 225179981368525 / 4503599627370496,
            pacing_rate = 0, cwnd = 10000, state = STARTUP,
            t_last_rtt_probe = 0, t_state_start = 1\<rparr>)"
  by (simp_all add: bbr_defs)

text \<open>
  The timer of \<open>PROBE_RTT\<close> compares with the double \<^verbatim>\<open>0.2\<close>, which is above \<open>1/5\<close>: a
  difference equal to that double is not beyond it.
\<close>

lemma timer_examples:
  "\<not> rtt_stable_for_long_enough (fl 0.2) (new_TcpBbrAgent 1000)"
  "rtt_stable_for_long_enough (1 / 4) (new_TcpBbrAgent 1000)"
  "(1 / 5 :: real) < fl 0.2"
  by (simp_all add: bbr_defs)

subsection \<open>From PROBE_BW to PROBE_RTT\<close>

text \<open>
  Claim C8, as amended. If the agent is in \<open>PROBE_BW\<close> and a sample arrives with
  \<open>clock - t_last_rtt_probe > 10.0\<close> (the difference as the double the source computes),
  then after that call of \<open>recv\<close> the state is \<open>PROBE_RTT\<close> and both \<open>t_last_rtt_probe\<close>
  and \<open>t_state_start\<close> are \<open>clock\<close>. Nothing is said of \<open>cwnd\<close>: the assignment
  \<^verbatim>\<open>cwnd_ = 4 * size_\<close> stands under the label \<^verbatim>\<open>PROBE_RTT\<close> of the switch, which this
  call, entered in \<open>PROBE_BW\<close>, does not run.
\<close>

theorem C8_probe_bw_to_probe_rtt:
  assumes "state a = PROBE_BW" and "fl (clock - t_last_rtt_probe a) > 10.0"
    and "recv clock pkt (cycle, a) = Some (cycle', a')"
  shows "state a' = PROBE_RTT \<and> t_last_rtt_probe a' = clock \<and> t_state_start a' = clock"
proof -
  from assms(3) obtain a1 a2 a4 c where
    a1: "update_max_bandwidth (real_of_int (hdr_cmn_size pkt)) (fl (clock - hdr_tcp_ts pkt)) a
           = Some a1"
    and a2: "update_min_rtt (fl (clock - hdr_tcp_ts pkt)) a1 = Some a2"
    and a4: "state_machine clock (cycle,
        (if state a2 \<noteq> PROBE_RTT then a2\<lparr>t_state_start := clock\<rparr> else a2)) = Some (cycle', a4)"
    and a': "a' = a4\<lparr>cwnd := max c (size_agent a4)\<rparr>"
    by (rule recv_SomeD)
  note a1_eq = update_max_bandwidth_SomeD [OF a1]
  note a2_eq = update_min_rtt_SomeD [OF a2]
  have "state a2 = PROBE_BW" and "t_last_rtt_probe a2 = t_last_rtt_probe a"
    using assms(1) by (simp_all add: a2_eq a1_eq)
  then have "state a4 = PROBE_RTT \<and> t_last_rtt_probe a4 = clock \<and> t_state_start a4 = clock"
    using a4 assms(2)
    by (auto simp: state_machine_def time_to_probe_rtt_def Let_def split: prod.splits)
  then show ?thesis
    by (simp add: a')
qed

theorem C8_witness:
  "state \<lparr>size_agent = 1000, pacing_gain = 1, cwnd_gain = 2, max_bandwidth = 20000,
          min_rtt = 1, pacing_rate = 0, cwnd = 40000, state = PROBE_BW,
          t_last_rtt_probe = 0, t_state_start = 13\<rparr> = PROBE_BW \<and>
   fl (14 - 0) > 10.0 \<and>
   recv 14 \<lparr>hdr_tcp_ts = 13, hdr_cmn_size = 1\<rparr>
      (0, \<lparr>size_agent = 1000, pacing_gain = 1, cwnd_gain = 2, max_bandwidth = 20000,
            min_rtt = 1, pacing_rate = 0, cwnd = 40000, state = PROBE_BW,
            t_last_rtt_probe = 0, t_state_start = 13\<rparr>) =
     Some (1, \<lparr>size_agent = 1000, pacing_gain = 0.75, cwnd_gain = 2, max_bandwidth = 20000,
               min_rtt = 1, pacing_rate = 0, cwnd = 40000, state = PROBE_RTT,
               t_last_rtt_probe = 14, t_state_start = 14\<rparr>) \<and>
   state \<lparr>size_agent = 1000, pacing_gain = 0.75, cwnd_gain = 2, max_bandwidth = 20000,
               min_rtt = 1, pacing_rate = 0, cwnd = 40000, state = PROBE_RTT,
               t_last_rtt_probe = 14, t_state_start = 14\<rparr> = PROBE_RTT"
proof -
  have r: "recv 14 \<lparr>hdr_tcp_ts = 13, hdr_cmn_size = 1\<rparr>
      (0, \<lparr>size_agent = 1000, pacing_gain = 1, cwnd_gain = 2, max_bandwidth = 20000,
            min_rtt = 1, pacing_rate = 0, cwnd = 40000, state = PROBE_BW,
            t_last_rtt_probe = 0, t_state_start = 13\<rparr>) =
     Some (1, \<lparr>size_agent = 1000, pacing_gain = 0.75, cwnd_gain = 2, max_bandwidth = 20000,
               min_rtt = 1, pacing_rate = 0, cwnd = 40000, state = PROBE_RTT,
               t_last_rtt_probe = 14, t_state_start = 14\<rparr>)"
    by (simp add: bbr_defs)
  show ?thesis
    using C8_probe_bw_to_probe_rtt [OF _ _ r] r by (simp add: fl_values)
qed

text \<open>
  The claim as stated fails. Three samples bring the fresh agent to \<open>PROBE_BW\<close>; the
  sample at time 14 moves it to \<open>PROBE_RTT\<close> with \<open>cwnd = 40000\<close>, not \<open>4 * 1000\<close>.
\<close>

theorem C8_counterexample:
  "run [sample 11 10000 1, sample 12 10000 1, sample 13 20000 1] (0, new_TcpBbrAgent 1000) =
     Some (0, \<lparr>size_agent = 1000, pacing_gain = 1, cwnd_gain = 2, max_bandwidth = 20000,
               min_rtt = 1, pacing_rate = 0, cwnd = 40000, state = PROBE_BW,
               t_last_rtt_probe = 0, t_state_start = 13\<rparr>) \<and>
   fl (14 - 0) > 10.0 \<and>
   run [sample 14 1 1]
      (0, \<lparr>size_agent = 1000, pacing_gain = 1, cwnd_gain = 2, max_bandwidth = 20000,
            min_rtt = 1, pacing_rate = 0, cwnd = 40000, state = PROBE_BW,
            t_last_rtt_probe = 0, t_state_start = 13\<rparr>) =
     Some (1, \<lparr>size_agent = 1000, pacing_gain = 0.75, cwnd_gain = 2, max_bandwidth = 20000,
               min_rtt = 1, pacing_rate = 0, cwnd = 40000, state = PROBE_RTT,
               t_last_rtt_probe = 14, t_state_start = 14\<rparr>) \<and>
   (40000::int) \<noteq> 4 * 1000"
  by (simp add: bbr_defs)

subsection \<open>The window floor\<close>

lemma step_floor:
  assumes "step e (cycle, a) = Some (cycle', a')" and "size_agent a \<le> cwnd a"
  shows "size_agent a' \<le> cwnd a'"
proof (cases e)
  case (Recv clock pkt)
  with assms(1) have "recv clock pkt (cycle, a) = Some (cycle', a')" by simp
  from recv_result(6) [OF this] show ?thesis by simp
next
  case Sendmsg
  with assms show ?thesis by (auto simp: sendmsg_def)
next
  case Timeout
  with assms show ?thesis by (auto simp: timeout_def)
qed

lemma run_floor:
  "run evs (cycle, a) = Some (cycle', a') \<Longrightarrow> size_agent a \<le> cwnd a \<Longrightarrow>
     size_agent a' \<le> cwnd a'"
proof (induction evs arbitrary: cycle a)
  case Nil
  then show ?case by simp
next
  case (Cons e es)
  from Cons.prems(1) obtain c1 a1 where
    s: "step e (cycle, a) = Some (c1, a1)" and r: "run es (c1, a1) = Some (cycle', a')"
    by (auto split: bind_splits)
  have "size_agent a1 \<le> cwnd a1"
    by (rule step_floor [OF s Cons.prems(2)])
  then show ?case
    by (rule Cons.IH [OF r])
qed

text \<open>
  Claim C2, as amended. Once one call of \<open>recv\<close> has returned, from whatever state,
  \<open>cwnd\<close> is at least \<open>size_agent\<close> and stays so through every later \<open>recv\<close>, \<open>sendmsg\<close>
  and \<open>timeout\<close>, in every state of the agent. Nothing is said of the value
  \<open>4 * size_agent\<close> in \<open>PROBE_RTT\<close>.
\<close>

theorem C2_window_floor_after_first_sample:
  assumes "recv clock pkt (cycle, a) = Some (cycle1, a1)"
    and "run evs (cycle1, a1) = Some (cycle', a')"
  shows "size_agent a' \<le> cwnd a'"
proof -
  have "size_agent a1 \<le> cwnd a1"
    using recv_result(6) [OF assms(1)] by simp
  with assms(2) show ?thesis by (rule run_floor)
qed

theorem C2_witness:
  "recv 11 \<lparr>hdr_tcp_ts = 10, hdr_cmn_size = 10000\<rparr> (0, new_TcpBbrAgent 1000) =
     Some (0, \<lparr>size_agent = 1000, pacing_gain = 1, cwnd_gain = 2, max_bandwidth = 10000,
               min_rtt = 1, pacing_rate = 0, cwnd = 20000, state = STARTUP,
               t_last_rtt_probe = 0, t_state_start = 11\<rparr>) \<and>
   run [Sendmsg, sample 12 10000 1, Timeout]
      (0, \<lparr>size_agent = 1000, pacing_gain = 1, cwnd_gain = 2, max_bandwidth = 10000,
               min_rtt = 1, pacing_rate = 0, cwnd = 20000, state = STARTUP,
               t_last_rtt_probe = 0, t_state_start = 11\<rparr>) =
     Some (0, \<lparr>size_agent = 1000, pacing_gain = 1, cwnd_gain = 2, max_bandwidth = 10000,
               min_rtt = 1, pacing_rate = 10000, cwnd = 20000, state = DRAIN,
               t_last_rtt_probe = 0, t_state_start = 12\<rparr>) \<and>
   (1000::int) \<le> 20000"
proof -
  have r: "recv 11 \<lparr>hdr_tcp_ts = 10, hdr_cmn_size = 10000\<rparr> (0, new_TcpBbrAgent 1000) =
     Some (0, \<lparr>size_agent = 1000, pacing_gain = 1, cwnd_gain = 2, max_bandwidth = 10000,
               min_rtt = 1, pacing_rate = 0, cwnd = 20000, state = STARTUP,
               t_last_rtt_probe = 0, t_state_start = 11\<rparr>)"
    by (simp add: bbr_defs)
  have s: "run [Sendmsg, sample 12 10000 1, Timeout]
      (0, \<lparr>size_agent = 1000, pacing_gain = 1, cwnd_gain = 2, max_bandwidth = 10000,
               min_rtt = 1, pacing_rate = 0, cwnd = 20000, state = STARTUP,
               t_last_rtt_probe = 0, t_state_start = 11\<rparr>) =
     Some (0, \<lparr>size_agent = 1000, pacing_gain = 1, cwnd_gain = 2, max_bandwidth = 10000,
               min_rtt = 1, pacing_rate = 10000, cwnd = 20000, state = DRAIN,
               t_last_rtt_probe = 0, t_state_start = 12\<rparr>)"
    by (simp add: bbr_defs)
  show ?thesis
    using C2_window_floor_after_first_sample [OF r s] r s by simp
qed

text \<open>
  The claim as stated fails twice. Before any sample (the empty run) the agent is in
  \<open>STARTUP\<close> with \<open>cwnd = 0\<close>, below \<open>size_agent\<close>. And under the label \<^verbatim>\<open>PROBE_RTT\<close> the
  switch assigns \<^verbatim>\<open>cwnd_ = 4 * size_\<close> ("Minimum cwnd"), but the statement after the
  switch assigns \<^verbatim>\<open>cwnd_\<close> again in every state, so the first assignment is never seen:
  five valid samples on the fresh agent, the fifth handled in \<open>PROBE_RTT\<close>, end in
  \<open>PROBE_RTT\<close> with \<open>cwnd = 40000\<close> where \<open>4 * size_agent = 4000\<close>.
\<close>

theorem C2_counterexample:
  "run [] (0, new_TcpBbrAgent 1000) = Some (0, new_TcpBbrAgent 1000) \<and>
   state (new_TcpBbrAgent 1000) \<noteq> PROBE_RTT \<and>
   cwnd (new_TcpBbrAgent 1000) < size_agent (new_TcpBbrAgent 1000) \<and>
   run [sample 11 10000 1, sample 12 10000 1, sample 13 20000 1, sample 14 1 1,
        sample 14.125 1 1] (0, new_TcpBbrAgent 1000) =
     Some (1, \<lparr>size_agent = 1000, pacing_gain = 0.75, cwnd_gain = 2, max_bandwidth = 20000,
               min_rtt = 1, pacing_rate = 0, cwnd = 40000, state = PROBE_RTT,
               t_last_rtt_probe = 14, t_state_start = 14\<rparr>) \<and>
   (40000::int) \<noteq> 4 * 1000"
  by (simp add: bbr_defs)

subsection \<open>The gain cycle\<close>

lemma cycle_gain_in_range:
  "0 \<le> c \<Longrightarrow> c < 8 \<Longrightarrow>
     cycle_gain c =
       (if (c + 1) mod 8 = 0 then 1.25 else if (c + 1) mod 8 = 1 then 0.75 else 1.0,
        (c + 1) mod 8)"
  by (simp add: cycle_gain_def int_rem_def Let_def)

lemma cycle_gain_range:
  "0 \<le> c \<Longrightarrow> c < 8 \<Longrightarrow> 0 \<le> snd (cycle_gain c) \<and> snd (cycle_gain c) < 8"
  by (simp add: cycle_gain_in_range)

lemma cycle_shift:
  "((c + 1) mod 8 + 1 + int i) mod 8 = (c + 1 + int (Suc i)) mod (8::int)"
proof -
  have "((c + 1) mod 8 + (1 + int i)) mod 8 = ((c + 1) + (1 + int i)) mod 8"
    by (rule mod_add_left_eq)
  then show ?thesis
    by (simp only: of_nat_Suc add.assoc add.commute [of "int i" 1])
qed

lemma cycle_gain_calls_Suc:
  assumes "0 \<le> c" and "c < 8"
  shows "fst (cycle_gain_calls (Suc n) c) =
      (if (c + 1) mod 8 = 0 then 1.25 else if (c + 1) mod 8 = 1 then 0.75 else 1.0) #
        fst (cycle_gain_calls n ((c + 1) mod 8))"
  using assms by (simp add: cycle_gain_in_range split: prod.splits)

lemma cycle_gain_calls_from:
  "0 \<le> c \<Longrightarrow> c < 8 \<Longrightarrow>
     fst (cycle_gain_calls n c) =
       map (\<lambda>i. if (c + 1 + int i) mod 8 = 0 then 1.25
                else if (c + 1 + int i) mod 8 = 1 then 0.75 else 1.0) [0..<n]"
proof (induction n arbitrary: c)
  case 0
  then show ?case by simp
next
  case (Suc n)
  let ?c = "(c + 1) mod 8"
  have "0 \<le> ?c" and "?c < 8" by simp_all
  then have IH: "fst (cycle_gain_calls n ?c) =
       map (\<lambda>i. if (c + 1 + int (Suc i)) mod 8 = 0 then 1.25
                else if (c + 1 + int (Suc i)) mod 8 = 1 then 0.75 else 1.0) [0..<n]"
    using Suc.IH [of ?c] by (simp only: cycle_shift)
  have head: "(c + 1 + int 0) mod 8 = ?c"
    by simp
  show ?case
    unfolding cycle_gain_calls_Suc [OF Suc.prems] IH map_upt_Suc head ..
qed

lemma gain_pattern:
  "(if (1 + int i) mod 8 = 0 then 1.25 else if (1 + int i) mod 8 = 1 then 0.75 else (1.0::real))
     = [0.75, 1.0, 1.0, 1.0, 1.0, 1.0, 1.0, 1.25] ! (i mod 8)"
proof -
  have "i mod 8 < 8" by simp
  then have k: "i mod 8 \<in> {0, 1, 2, 3, 4, 5, 6, 7}" by auto
  have "(1 + int i) mod 8 = (1 + int i mod 8) mod 8"
    by (rule mod_add_right_eq [symmetric])
  then have m: "(1 + int i) mod 8 = (1 + int (i mod 8)) mod 8"
    by (simp only: zmod_int of_nat_numeral)
  show ?thesis
    unfolding m using k by auto
qed

text \<open>
  Claim C4, as amended. From the static at 0, the first 8 calls of \<open>cycle_gain\<close> return
  0.75, 1.0, 1.0, 1.0, 1.0, 1.0, 1.0, 1.25 in this order and leave the static at 0; for
  every \<open>n\<close>, call number \<open>i\<close> of \<open>n\<close> calls (counted from 0) returns element \<open>i mod 8\<close>
  of that list, so the same 8 gains repeat in every later block of 8 calls.
\<close>

theorem C4_cycle_gain_sequence:
  "fst (cycle_gain_calls 8 0) = [0.75, 1.0, 1.0, 1.0, 1.0, 1.0, 1.0, 1.25] \<and>
   snd (cycle_gain_calls 8 0) = 0 \<and>
   fst (cycle_gain_calls n 0) =
     map (\<lambda>i. [0.75, 1.0, 1.0, 1.0, 1.0, 1.0, 1.0, 1.25] ! (i mod 8)) [0..<n]"
proof -
  have "fst (cycle_gain_calls n 0) =
     map (\<lambda>i. if (0 + 1 + int i) mod 8 = 0 then 1.25
              else if (0 + 1 + int i) mod 8 = 1 then 0.75 else 1.0) [0..<n]"
    by (rule cycle_gain_calls_from) simp_all
  then have "fst (cycle_gain_calls n 0) =
     map (\<lambda>i. [0.75, 1.0, 1.0, 1.0, 1.0, 1.0, 1.0, 1.25] ! (i mod 8)) [0..<n]"
    by (simp only: add_0 gain_pattern)
  moreover have "cycle_gain_calls 8 0 = ([0.75, 1.0, 1.0, 1.0, 1.0, 1.0, 1.0, 1.25], 0)"
    by (simp add: eval_nat_numeral cycle_gain_def int_rem_def)
  ultimately show ?thesis by simp
qed

text \<open>
  The claim as stated fails: the first call makes the static 1 and returns 0.75, and
  1.25 is returned by the eighth call.
\<close>

theorem C4_counterexample:
  "fst (cycle_gain_calls 8 0) = [0.75, 1.0, 1.0, 1.0, 1.0, 1.0, 1.0, 1.25] \<and>
   [0.75, 1.0, 1.0, 1.0, 1.0, 1.0, 1.0, 1.25] \<noteq> [1.0, 1.25, 0.75, 1.0, 1.0, 1.0, 1.0, (1.0::real)]"
  by (simp add: eval_nat_numeral cycle_gain_def int_rem_def)

subsection \<open>Two agents of one process\<close>

text \<open>
  Claim C9 does not hold of the source: the counter is a function-local static, shared by
  all agents of the process. Agent A calls \<open>cycle_gain\<close> twice. Alone it is returned 0.75
  and 1.0. With six calls of agent B between its two calls it is returned 0.75 and 1.25.
  The same shows in \<open>recv\<close>: one agent in \<open>PROBE_BW\<close>, one packet, and the static at 1 or
  at 7 (where other agents' calls have left it) give \<open>pacing_gain\<close> 1.0 or 1.25.
\<close>

theorem C9_shared_static_cycle:
  "gains_seen Agent_A [Agent_A, Agent_A] 0 = [0.75, 1.0] \<and>
   gains_seen Agent_A [Agent_A, Agent_B, Agent_B, Agent_B, Agent_B, Agent_B, Agent_B, Agent_A] 0
     = [0.75, 1.25] \<and>
   run [sample 1 10000 1, sample 2 10000 1, sample 3 20000 1] (0, new_TcpBbrAgent 1000) =
     Some (0, \<lparr>size_agent = 1000, pacing_gain = 1, cwnd_gain = 2, max_bandwidth = 20000,
               min_rtt = 1, pacing_rate = 0, cwnd = 40000, state = PROBE_BW,
               t_last_rtt_probe = 0, t_state_start = 3\<rparr>) \<and>
   recv 4 \<lparr>hdr_tcp_ts = 3, hdr_cmn_size = 1\<rparr>
      (1, \<lparr>size_agent = 1000, pacing_gain = 1, cwnd_gain = 2, max_bandwidth = 20000,
            min_rtt = 1, pacing_rate = 0, cwnd = 40000, state = PROBE_BW,
            t_last_rtt_probe = 0, t_state_start = 3\<rparr>) =
     Some (2, \<lparr>size_agent = 1000, pacing_gain = 1.0, cwnd_gain = 2, max_bandwidth = 20000,
               min_rtt = 1, pacing_rate = 0, cwnd = 40000, state = PROBE_BW,
               t_last_rtt_probe = 0, t_state_start = 4\<rparr>) \<and>
   recv 4 \<lparr>hdr_tcp_ts = 3, hdr_cmn_size = 1\<rparr>
      (7, \<lparr>size_agent = 1000, pacing_gain = 1, cwnd_gain = 2, max_bandwidth = 20000,
            min_rtt = 1, pacing_rate = 0, cwnd = 40000, state = PROBE_BW,
            t_last_rtt_probe = 0, t_state_start = 3\<rparr>) =
     Some (0, \<lparr>size_agent = 1000, pacing_gain = 1.25, cwnd_gain = 2, max_bandwidth = 20000,
               min_rtt = 1, pacing_rate = 0, cwnd = 40000, state = PROBE_BW,
               t_last_rtt_probe = 0, t_state_start = 4\<rparr>)"
  by (simp add: bbr_defs)

end
